theory Spec2Isabelle
  imports Complex_Main "HOL-Library.Word"
begin

section \<open>The numbers of the program\<close>

text \<open>
  Every number of the ray tracer is a Go \<open>float64\<close>. The model keeps the special
  values of IEEE 754 that decide the control flow of the program (a comparison with
  \<open>NaN\<close> is false, \<open>0/0\<close> is \<open>NaN\<close>, \<open>x/0\<close> is an infinity) and idealises the
  rest: a finite value is a real number and the arithmetic on finite values is exact (no
  rounding, no overflow, no underflow, one zero, which divides like \<open>+0\<close>). Theorems below
  that speak of exact equality hold in this rounding-free arithmetic.
\<close>

datatype float64 = Fin real | PInf | NInf | NaN

instantiation float64 :: "{plus, minus, uminus, times, inverse, ord}"
begin

fun uminus_float64 :: "float64 \<Rightarrow> float64" where
  "uminus_float64 (Fin a) = Fin (- a)"
| "uminus_float64 PInf = NInf"
| "uminus_float64 NInf = PInf"
| "uminus_float64 NaN = NaN"

fun plus_float64 :: "float64 \<Rightarrow> float64 \<Rightarrow> float64" where
  "plus_float64 (Fin a) (Fin b) = Fin (a + b)"
| "plus_float64 NaN _ = NaN"
| "plus_float64 _ NaN = NaN"
| "plus_float64 PInf NInf = NaN"
| "plus_float64 NInf PInf = NaN"
| "plus_float64 PInf _ = PInf"
| "plus_float64 _ PInf = PInf"
| "plus_float64 NInf _ = NInf"
| "plus_float64 _ NInf = NInf"

definition minus_float64 :: "float64 \<Rightarrow> float64 \<Rightarrow> float64" where
  "minus_float64 (a::float64) b = a + (- b)"

fun times_float64 :: "float64 \<Rightarrow> float64 \<Rightarrow> float64" where
  "times_float64 (Fin a) (Fin b) = Fin (a * b)"
| "times_float64 NaN _ = NaN"
| "times_float64 _ NaN = NaN"
| "times_float64 (Fin a) PInf = (if a = 0 then NaN else if 0 < a then PInf else NInf)"
| "times_float64 (Fin a) NInf = (if a = 0 then NaN else if 0 < a then NInf else PInf)"
| "times_float64 PInf (Fin b) = (if b = 0 then NaN else if 0 < b then PInf else NInf)"
| "times_float64 NInf (Fin b) = (if b = 0 then NaN else if 0 < b then NInf else PInf)"
| "times_float64 PInf PInf = PInf"
| "times_float64 PInf NInf = NInf"
| "times_float64 NInf PInf = NInf"
| "times_float64 NInf NInf = PInf"

fun divide_float64 :: "float64 \<Rightarrow> float64 \<Rightarrow> float64" where
  "divide_float64 (Fin a) (Fin b) =
     (if b \<noteq> 0 then Fin (a / b)
      else if a = 0 then NaN else if 0 < a then PInf else NInf)"
| "divide_float64 NaN _ = NaN"
| "divide_float64 _ NaN = NaN"
| "divide_float64 (Fin a) PInf = Fin 0"
| "divide_float64 (Fin a) NInf = Fin 0"
| "divide_float64 PInf (Fin b) = (if 0 \<le> b then PInf else NInf)"
| "divide_float64 NInf (Fin b) = (if 0 \<le> b then NInf else PInf)"
| "divide_float64 PInf PInf = NaN"
| "divide_float64 PInf NInf = NaN"
| "divide_float64 NInf PInf = NaN"
| "divide_float64 NInf NInf = NaN"

definition inverse_float64 :: "float64 \<Rightarrow> float64" where
  "inverse_float64 (a::float64) = divide (Fin 1) a"

fun less_float64 :: "float64 \<Rightarrow> float64 \<Rightarrow> bool" where
  "less_float64 (Fin a) (Fin b) = (a < b)"
| "less_float64 NaN _ = False"
| "less_float64 _ NaN = False"
| "less_float64 _ NInf = False"
| "less_float64 PInf _ = False"
| "less_float64 NInf _ = True"
| "less_float64 _ PInf = True"

fun less_eq_float64 :: "float64 \<Rightarrow> float64 \<Rightarrow> bool" where
  "less_eq_float64 (Fin a) (Fin b) = (a \<le> b)"
| "less_eq_float64 NaN _ = False"
| "less_eq_float64 _ NaN = False"
| "less_eq_float64 NInf _ = True"
| "less_eq_float64 _ PInf = True"
| "less_eq_float64 PInf _ = False"
| "less_eq_float64 _ NInf = False"

instance ..

end

text \<open>\<open>math.Sqrt\<close>: \<open>NaN\<close> below zero.\<close>

fun Sqrt :: "float64 \<Rightarrow> float64" where
  "Sqrt (Fin a) = (if a < 0 then NaN else Fin (sqrt a))"
| "Sqrt PInf = PInf"
| "Sqrt NInf = NaN"
| "Sqrt NaN = NaN"

text \<open>\<open>math.Abs\<close>.\<close>

fun Abs :: "float64 \<Rightarrow> float64" where
  "Abs (Fin a) = Fin \<bar>a\<bar>"
| "Abs PInf = PInf"
| "Abs NInf = PInf"
| "Abs NaN = NaN"

text \<open>\<open>math.MaxFloat64\<close>, the largest finite value: \<open>(2 - 2^-52) * 2^1023\<close>.\<close>

definition MaxFloat64 :: float64 where
  "MaxFloat64 = Fin ((2 ^ 53 - 1) * 2 ^ 971)"

text \<open>
  Conversions. Go truncates a floating-point value towards zero when it converts it to an
  integer type; when the truncated value does not fit the type (and for an infinity or
  \<open>NaN\<close>) the conversion succeeds with a result that the language leaves to the
  implementation. For \<open>int\<close>, taken unbounded, the model gives \<open>None\<close> there; for
  \<open>uint8\<close> the implementation's choice is a parameter \<open>impl\<close> of the model.
\<close>

definition trunc :: "real \<Rightarrow> int" where
  "trunc v = (if 0 \<le> v then \<lfloor>v\<rfloor> else \<lceil>v\<rceil>)"

fun int_of_float64 :: "float64 \<Rightarrow> int option" where
  "int_of_float64 (Fin v) = Some (trunc v)"
| "int_of_float64 PInf = None"
| "int_of_float64 NInf = None"
| "int_of_float64 NaN = None"

type_synonym uint8 = "8 word"

fun uint8_of_float64 :: "(float64 \<Rightarrow> uint8) \<Rightarrow> float64 \<Rightarrow> uint8" where
  "uint8_of_float64 impl (Fin v) =
     (if 0 \<le> trunc v \<and> trunc v \<le> 255 then word_of_int (trunc v) else impl (Fin v))"
| "uint8_of_float64 impl PInf = impl PInf"
| "uint8_of_float64 impl NInf = impl NInf"
| "uint8_of_float64 impl NaN = impl NaN"

definition float64_of_int :: "int \<Rightarrow> float64" where
  "float64_of_int i = Fin (of_int i)"

section \<open>Package geom\<close>

record Point2d =
  X2 :: float64
  Y2 :: float64

record Plane2d =
  Tl :: Point2d
  Br :: Point2d
  PlaneZ :: float64

record Point =
  PX :: float64
  PY :: float64
  PZ :: float64

record Vector =
  VX :: float64
  VY :: float64
  VZ :: float64

record Sphere =
  Center :: Point
  Radius :: float64

text \<open>A \<open>Line\<close> is the array \<open>[2]Point\<close>: \<open>l[0]\<close> is \<open>fst l\<close>, \<open>l[1]\<close> is \<open>snd l\<close>.\<close>

type_synonym Line = "Point \<times> Point"

record Color =
  CR :: float64
  CG :: float64
  CB :: float64

text \<open>
  The values of Go's \<open>error\<close> that validation builds, one constructor for each
  \<open>fmt.Errorf\<close> of the source; a wrapping message keeps the error it wraps. The value
  \<open>nil\<close> is \<open>None\<close> of \<open>error option\<close>.
\<close>

datatype error =
    NegativeRadius
  | NullPlane Plane2d
  | ColorOutOfRange Color
  | InvalidSphere error
  | InvalidNearPlane error
  | InvalidFarPlane error
  | InvalidSceneObject error
  | InvalidSceneBackground error
  | InvalidDiffuseCoefficient float64
  | InvalidSceneFrustum error

definition Plane2d_Validate :: "Plane2d \<Rightarrow> error option" where
  "Plane2d_Validate p =
     (if X2 (Tl p) \<ge> X2 (Br p) \<or> Y2 (Tl p) \<le> Y2 (Br p) then Some (NullPlane p) else None)"

definition Dx :: "Plane2d \<Rightarrow> float64" where
  "Dx p = X2 (Br p) - X2 (Tl p)"

definition Dy :: "Plane2d \<Rightarrow> float64" where
  "Dy p = Y2 (Tl p) - Y2 (Br p)"

definition FloatsEqual :: "float64 \<Rightarrow> float64 \<Rightarrow> float64 \<Rightarrow> bool" where
  "FloatsEqual lhs rhs epsilon = (Abs (lhs - rhs) < epsilon)"

definition PointsEqual :: "Point \<Rightarrow> Point \<Rightarrow> float64 \<Rightarrow> bool" where
  "PointsEqual lhs rhs epsilon =
     (FloatsEqual (PX lhs) (PX rhs) epsilon \<and>
      FloatsEqual (PY lhs) (PY rhs) epsilon \<and>
      FloatsEqual (PZ lhs) (PZ rhs) epsilon)"

definition Origin :: Point where
  "Origin = \<lparr>PX = Fin 0, PY = Fin 0, PZ = Fin 0\<rparr>"

definition MakeVector :: "Point \<Rightarrow> Point \<Rightarrow> Vector" where
  "MakeVector head tail =
     \<lparr>VX = PX head - PX tail, VY = PY head - PY tail, VZ = PZ head - PZ tail\<rparr>"

definition Module :: "Vector \<Rightarrow> float64" where
  "Module v = Sqrt (VX v * VX v + VY v * VY v + VZ v * VZ v)"

definition UnitVector :: "Vector \<Rightarrow> Vector" where
  "UnitVector v = (let m = Module v in \<lparr>VX = VX v / m, VY = VY v / m, VZ = VZ v / m\<rparr>)"

definition DotProduct :: "Vector \<Rightarrow> Vector \<Rightarrow> float64" where
  "DotProduct lhs rhs = VX lhs * VX rhs + VY lhs * VY rhs + VZ lhs * VZ rhs"

definition VectorsEqual :: "Vector \<Rightarrow> Vector \<Rightarrow> float64 \<Rightarrow> bool" where
  "VectorsEqual lhs rhs epsilon =
     (FloatsEqual (VX lhs) (VX rhs) epsilon \<and>
      FloatsEqual (VY lhs) (VY rhs) epsilon \<and>
      FloatsEqual (VZ lhs) (VZ rhs) epsilon)"

definition Sphere_Validate :: "Sphere \<Rightarrow> error option" where
  "Sphere_Validate s = (if Radius s < Fin 0 then Some NegativeRadius else None)"

definition NormalVectorAt :: "Sphere \<Rightarrow> Point \<Rightarrow> Vector" where
  "NormalVectorAt s p = (let v = MakeVector p (Center s) in UnitVector v)"

text \<open>
  \<open>SphereLineIntersection\<close> returns the triple \<open>(p, t, ok)\<close>. Its local variables
  \<open>a\<close>, \<open>b\<close>, \<open>c\<close> and \<open>d\<close> are also given as functions of the sphere and the
  line, so that statements can name them.
\<close>

definition SphereLineIntersection :: "Sphere \<Rightarrow> Line \<Rightarrow> Point \<times> float64 \<times> bool" where
  "SphereLineIntersection s l =
     (let dx = PX (snd l) - PX (fst l);
          dy = PY (snd l) - PY (fst l);
          dz = PZ (snd l) - PZ (fst l);
          a = dx * dx + dy * dy + dz * dz;
          b = Fin 2 * dx * (PX (fst l) - PX (Center s)) +
              Fin 2 * dy * (PY (fst l) - PY (Center s)) +
              Fin 2 * dz * (PZ (fst l) - PZ (Center s));
          c = PX (Center s) * PX (Center s) + PY (Center s) * PY (Center s) +
              PZ (Center s) * PZ (Center s) +
              PX (fst l) * PX (fst l) + PY (fst l) * PY (fst l) + PZ (fst l) * PZ (fst l) -
              Fin 2 * (PX (Center s) * PX (fst l) + PY (Center s) * PY (fst l) +
                       PZ (Center s) * PZ (fst l)) -
              Radius s * Radius s;
          d = b * b - Fin 4 * a * c
      in if d < Fin 0 then (Origin, MaxFloat64, False)
         else let t = (- b - Sqrt d) / (Fin 2 * a)
              in (\<lparr>PX = PX (fst l) + t * dx, PY = PY (fst l) + t * dy, PZ = PZ (fst l) + t * dz\<rparr>,
                  t, True))"







section \<open>Package raytracer\<close>

record RGBA =
  R8 :: uint8
  G8 :: uint8
  B8 :: uint8
  A8 :: uint8

definition isColorChannelValid :: "float64 \<Rightarrow> bool" where
  "isColorChannelValid c = (Fin 0 \<le> c \<and> c \<le> Fin 1)"

definition Color_Validate :: "Color \<Rightarrow> error option" where
  "Color_Validate c =
     (if isColorChannelValid (CR c) \<and> isColorChannelValid (CG c) \<and> isColorChannelValid (CB c)
      then None else Some (ColorOutOfRange c))"

definition toRGBA :: "(float64 \<Rightarrow> uint8) \<Rightarrow> Color \<Rightarrow> RGBA" where
  "toRGBA impl c =
     \<lparr>R8 = uint8_of_float64 impl (CR c * Fin 255),
      G8 = uint8_of_float64 impl (CG c * Fin 255),
      B8 = uint8_of_float64 impl (CB c * Fin 255),
      A8 = 255\<rparr>"

text \<open>The \<open>Sphere\<close> of package raytracer, an object of the scene.\<close>

record SceneSphere =
  ObjSphere :: Sphere
  ObjColor :: Color

definition SceneSphere_Validate :: "SceneSphere \<Rightarrow> error option" where
  "SceneSphere_Validate s =
     (case Sphere_Validate (ObjSphere s) of
        Some err \<Rightarrow> Some err
      | None \<Rightarrow>
         (case Color_Validate (ObjColor s) of
            Some err \<Rightarrow> Some (InvalidSphere err)
          | None \<Rightarrow> None))"

record Frustum =
  Near :: Plane2d
  Far :: Plane2d

definition Frustum_Validate :: "Frustum \<Rightarrow> error option" where
  "Frustum_Validate f =
     (case Plane2d_Validate (Near f) of
        Some err \<Rightarrow> Some (InvalidNearPlane err)
      | None \<Rightarrow>
         (case Plane2d_Validate (Far f) of
            Some err \<Rightarrow> Some (InvalidFarPlane err)
          | None \<Rightarrow> None))"

record Scene =
  ViewFrustum :: Frustum
  Light :: Point
  Objects :: "SceneSphere list"
  Bg :: Color
  Kd :: float64

text \<open>The loop of \<open>Scene.Validate\<close> over the objects, which returns at the first error.\<close>

fun validateObjects :: "SceneSphere list \<Rightarrow> error option" where
  "validateObjects [] = None"
| "validateObjects (obj # objs) =
     (case SceneSphere_Validate obj of
        Some err \<Rightarrow> Some (InvalidSceneObject err)
      | None \<Rightarrow> validateObjects objs)"

definition Scene_Validate :: "Scene \<Rightarrow> error option" where
  "Scene_Validate s =
     (case validateObjects (Objects s) of
        Some err \<Rightarrow> Some err
      | None \<Rightarrow>
         (case Color_Validate (Bg s) of
            Some err \<Rightarrow> Some (InvalidSceneBackground err)
          | None \<Rightarrow>
             if Kd s < Fin 0 \<or> Kd s > Fin 1 then Some (InvalidDiffuseCoefficient (Kd s))
             else (case Frustum_Validate (ViewFrustum s) of
                     Some err \<Rightarrow> Some (InvalidSceneFrustum err)
                   | None \<Rightarrow> None)))"

definition diffuseShading :: "float64 \<Rightarrow> float64 \<Rightarrow> float64 \<Rightarrow> float64" where
  "diffuseShading factor kd channel = (let ka = Fin 1 - kd in factor * kd * channel + factor * ka)"

text \<open>The loop of \<open>rayHitsObject\<close>, which returns at the first intersection.\<close>

fun rayHitsLoop :: "SceneSphere list \<Rightarrow> Line \<Rightarrow> bool" where
  "rayHitsLoop [] ray = False"
| "rayHitsLoop (obj # objs) ray =
     (case SphereLineIntersection (ObjSphere obj) ray of
        (_, _, ok) \<Rightarrow> if ok then True else rayHitsLoop objs ray)"

definition rayHitsObject :: "Scene \<Rightarrow> Line \<Rightarrow> bool" where
  "rayHitsObject s ray = rayHitsLoop (Objects s) ray"

text \<open>
  \<open>castRay\<close>: the body of the loop at index \<open>i\<close> on the variables
  \<open>(pmin, tmin, imin)\<close>, and the loop over \<open>range s.Objects\<close>. The pointer
  \<open>&s.Objects[imin]\<close> that the function returns is the index \<open>imin\<close>, \<open>nil\<close> is
  \<open>None\<close>: two such pointers are equal exactly when the indices are.
\<close>

definition castRayStep :: "Scene \<Rightarrow> Line \<Rightarrow> nat \<Rightarrow> Point \<times> float64 \<times> int \<Rightarrow> Point \<times> float64 \<times> int" where
  "castRayStep s ray i st =
     (case st of (pmin, tmin, imin) \<Rightarrow>
        (case SphereLineIntersection (ObjSphere (Objects s ! i)) ray of
           (p, t, ok) \<Rightarrow>
             if ok then (if t < tmin then (p, t, int i) else (pmin, tmin, imin))
             else (pmin, tmin, imin)))"

definition castRay :: "Scene \<Rightarrow> Line \<Rightarrow> nat option \<times> Point" where
  "castRay s ray =
     (case fold (castRayStep s ray) [0..<length (Objects s)]
             (\<lparr>PX = Fin 0, PY = Fin 0, PZ = Fin 0\<rparr>, MaxFloat64, - 1) of
        (pmin, tmin, imin) \<Rightarrow>
          if imin = - 1 then (None, Origin) else (Some (nat imin), pmin))"

definition computeObjectColorAt :: "Scene \<Rightarrow> SceneSphere \<Rightarrow> Point \<Rightarrow> Color" where
  "computeObjectColorAt s obj p =
     (let normal = NormalVectorAt (ObjSphere obj) p;
          light = MakeVector (Light s) p;
          light = UnitVector light;
          dot = DotProduct light normal;
          dot = (if dot < Fin 0 then Fin 0 else dot);
          r = diffuseShading dot (Kd s) (CR (ObjColor obj));
          g = diffuseShading dot (Kd s) (CG (ObjColor obj));
          b = diffuseShading dot (Kd s) (CB (ObjColor obj))
      in \<lparr>CR = r, CG = g, CB = b\<rparr>)"

definition bgShadowPixel :: "Color \<Rightarrow> Color" where
  "bgShadowPixel c = \<lparr>CR = CR c / Fin 2, CG = CG c / Fin 2, CB = CB c / Fin 2\<rparr>"

text \<open>
  \<open>renderPixel\<close> in three parts: the far-plane point \<open>(xfar, yfar, Far.Z)\<close> and the
  primary ray that its first statements build, the colour \<open>c\<close> that its
  \<open>if\<close> statement chooses, and the conversion that it returns.
\<close>

definition farPoint :: "Scene \<Rightarrow> float64 \<Rightarrow> float64 \<Rightarrow> Point" where
  "farPoint s x y =
     (let xfar = x * Dx (Far (ViewFrustum s)) / Dx (Near (ViewFrustum s));
          yfar = y * Dy (Far (ViewFrustum s)) / Dx (Near (ViewFrustum s))
      in \<lparr>PX = xfar, PY = yfar, PZ = PlaneZ (Far (ViewFrustum s))\<rparr>)"

definition primaryRay :: "Scene \<Rightarrow> float64 \<Rightarrow> float64 \<Rightarrow> Line" where
  "primaryRay s x y = (\<lparr>PX = x, PY = y, PZ = PlaneZ (Near (ViewFrustum s))\<rparr>, farPoint s x y)"

definition pixelColor :: "Scene \<Rightarrow> float64 \<Rightarrow> float64 \<Rightarrow> Color" where
  "pixelColor s x y =
     (let ray = primaryRay s x y in
      case castRay s ray of
        (Some i, intersection) \<Rightarrow>
          (let obj = Objects s ! i;
               sray = (Light s, intersection)
           in case castRay s sray of
                (other, _) \<Rightarrow>
                  if other \<noteq> None \<and> other \<noteq> Some i
                  then \<lparr>CR = (Fin 1 - Kd s) * CR (ObjColor obj),
                        CG = (Fin 1 - Kd s) * CG (ObjColor obj),
                        CB = (Fin 1 - Kd s) * CB (ObjColor obj)\<rparr>
                  else computeObjectColorAt s obj intersection)
      | (None, _) \<Rightarrow>
          (let sray = (farPoint s x y, Light s)
           in if rayHitsObject s sray
              then \<lparr>CR = CR (Bg s) / Fin 2, CG = CG (Bg s) / Fin 2, CB = CB (Bg s) / Fin 2\<rparr>
              else Bg s))"

definition renderPixel :: "(float64 \<Rightarrow> uint8) \<Rightarrow> Scene \<Rightarrow> float64 \<Rightarrow> float64 \<Rightarrow> RGBA" where
  "renderPixel impl s x y = toRGBA impl (pixelColor s x y)"

section \<open>The image and the renderer\<close>

text \<open>
  An \<open>image.RGBA\<close> over the rectangle \<open>image.Rect(0, 0, w, h)\<close>: its pixels in row-major
  order, four bytes each, pixel \<open>(x, y)\<close> at position \<open>y * w + x\<close>. \<open>image.NewRGBA\<close>
  returns it with every byte zero; \<open>SetRGBA\<close> does nothing outside the rectangle and
  \<open>RGBAAt\<close> reads the zero colour there.
\<close>

record Image =
  ImgW :: nat
  ImgH :: nat
  Pix :: "RGBA list"

definition zeroRGBA :: RGBA where
  "zeroRGBA = \<lparr>R8 = 0, G8 = 0, B8 = 0, A8 = 0\<rparr>"

definition NewRGBA :: "nat \<Rightarrow> nat \<Rightarrow> Image" where
  "NewRGBA w h = \<lparr>ImgW = w, ImgH = h, Pix = replicate (w * h) zeroRGBA\<rparr>"

definition SetRGBA :: "Image \<Rightarrow> nat \<Rightarrow> nat \<Rightarrow> RGBA \<Rightarrow> Image" where
  "SetRGBA img x y c =
     (if x < ImgW img \<and> y < ImgH img then img\<lparr>Pix := (Pix img)[y * ImgW img + x := c]\<rparr>
      else img)"

definition RGBAAt :: "Image \<Rightarrow> nat \<Rightarrow> nat \<Rightarrow> RGBA" where
  "RGBAAt img x y =
     (if x < ImgW img \<and> y < ImgH img then Pix img ! (y * ImgW img + x) else zeroRGBA)"

text \<open>
  What \<open>Render\<close> returns: the image and \<open>nil\<close>, or \<open>nil\<close> and the error of the
  validation. \<open>RenderUndefined\<close> stands for the runs whose image size is left to the
  implementation, since an extent of the near plane is not finite.
\<close>

datatype RenderResult = RenderImage Image | RenderError error | RenderUndefined

text \<open>
  The body of one goroutine of \<open>Render\<close>, for the stripe of the rows \<open>ystart\<close> to
  \<open>yend - 1\<close>: the loop over \<open>x\<close> inside the loop over \<open>y\<close>.
\<close>

definition renderRow :: "(float64 \<Rightarrow> uint8) \<Rightarrow> Scene \<Rightarrow> Plane2d \<Rightarrow> nat \<Rightarrow> nat \<Rightarrow> Image \<Rightarrow> Image" where
  "renderRow impl s vp w y img =
     fold (\<lambda>x img.
             let c = renderPixel impl s (float64_of_int (int x) + X2 (Tl vp))
                       (- Y2 (Br vp) - float64_of_int (int y))
             in SetRGBA img x y c)
       [0..<w] img"

definition renderStripe ::
  "(float64 \<Rightarrow> uint8) \<Rightarrow> Scene \<Rightarrow> Plane2d \<Rightarrow> nat \<Rightarrow> nat \<Rightarrow> nat \<Rightarrow> Image \<Rightarrow> Image" where
  "renderStripe impl s vp w ystart yend img =
     fold (renderRow impl s vp w) [ystart..<yend] img"

text \<open>
  \<open>Render\<close>. The goroutines write to rows of their own and share nothing else that
  changes, so the image that the function returns, after it has heard from all of them, is
  the one that the stripes give when they run one after the other; the model runs them in
  the order of the loop that starts them. After a successful validation a finite extent is
  positive, so \<open>w\<close> and \<open>h\<close> are not negative and Go's division \<open>h / nstripes\<close> is
  \<open>div\<close>.
\<close>

definition Render :: "(float64 \<Rightarrow> uint8) \<Rightarrow> Scene \<Rightarrow> int \<Rightarrow> RenderResult" where
  "Render impl s nstripes =
     (let nstripes = (if nstripes < 1 then 1 else nstripes) in
      case Scene_Validate s of
        Some err \<Rightarrow> RenderError err
      | None \<Rightarrow>
         (let vp = Near (ViewFrustum s) in
          case int_of_float64 (Dx vp) of
            None \<Rightarrow> RenderUndefined
          | Some w \<Rightarrow>
             (case int_of_float64 (Dy vp) of
                None \<Rightarrow> RenderUndefined
              | Some h \<Rightarrow>
                 (let img = NewRGBA (nat w) (nat h);
                      slice = nat h div nat nstripes
                  in RenderImage
                       (fold (\<lambda>n img.
                                let ystart = slice * n;
                                    yend = ystart + slice
                                in renderStripe impl s vp (nat w) ystart yend img)
                          [0..<nat nstripes] img)))))"

section \<open>Notions used in the statements\<close>

text \<open>
  What \<open>SphereLineIntersection\<close> returns for the object at index \<open>i\<close> of the scene:
  the point, the parameter \<open>t\<close> and the flag \<open>ok\<close>.
\<close>

definition hitP :: "Scene \<Rightarrow> Line \<Rightarrow> nat \<Rightarrow> Point" where
  "hitP s ray i = fst (SphereLineIntersection (ObjSphere (Objects s ! i)) ray)"

definition hitT :: "Scene \<Rightarrow> Line \<Rightarrow> nat \<Rightarrow> float64" where
  "hitT s ray i = fst (snd (SphereLineIntersection (ObjSphere (Objects s ! i)) ray))"

definition hitOk :: "Scene \<Rightarrow> Line \<Rightarrow> nat \<Rightarrow> bool" where
  "hitOk s ray i = snd (snd (SphereLineIntersection (ObjSphere (Objects s ! i)) ray))"

text \<open>
  The invariant of the loop of \<open>castRay\<close> after the objects below index \<open>k\<close>: either
  nothing was chosen and no object so far has an intersection with \<open>t\<close> below
  \<open>MaxFloat64\<close>, or the variables hold the first object, among those so far, of least
  \<open>t\<close>.
\<close>

definition castRayInv :: "Scene \<Rightarrow> Line \<Rightarrow> nat \<Rightarrow> Point \<times> float64 \<times> int \<Rightarrow> bool" where
  "castRayInv s ray k st =
     (case st of (pmin, tmin, imin) \<Rightarrow>
        (imin = - 1 \<and> tmin = MaxFloat64 \<and>
         (\<forall>j<k. hitOk s ray j \<longrightarrow> \<not> hitT s ray j < MaxFloat64)) \<or>
        (\<exists>i<k. imin = int i \<and> pmin = hitP s ray i \<and> tmin = hitT s ray i \<and>
           hitOk s ray i \<and> hitT s ray i < MaxFloat64 \<and>
           (\<forall>j<k. hitOk s ray j \<longrightarrow> \<not> hitT s ray j < hitT s ray i) \<and>
           (\<forall>j<i. hitOk s ray j \<longrightarrow> \<not> hitT s ray j \<le> hitT s ray i)))"




section \<open>Example scenes\<close>

text \<open>
  Small scenes on which the theorems are tried: a red sphere of radius 1 on the
  \<open>z\<close> axis, a green one beside it, and a frustum whose two planes have the same
  size, so that the primary rays run parallel to the \<open>z\<close> axis.
\<close>

definition mkPoint :: "real \<Rightarrow> real \<Rightarrow> real \<Rightarrow> Point" where
  "mkPoint x y z = \<lparr>PX = Fin x, PY = Fin y, PZ = Fin z\<rparr>"

definition mkColor :: "real \<Rightarrow> real \<Rightarrow> real \<Rightarrow> Color" where
  "mkColor r g b = \<lparr>CR = Fin r, CG = Fin g, CB = Fin b\<rparr>"

definition mkPlane :: "real \<Rightarrow> real \<Rightarrow> real \<Rightarrow> real \<Rightarrow> real \<Rightarrow> Plane2d" where
  "mkPlane tlx tly brx bry z =
     \<lparr>Tl = \<lparr>X2 = Fin tlx, Y2 = Fin tly\<rparr>, Br = \<lparr>X2 = Fin brx, Y2 = Fin bry\<rparr>, PlaneZ = Fin z\<rparr>"

definition redSphere :: SceneSphere where
  "redSphere = \<lparr>ObjSphere = \<lparr>Center = mkPoint 0 0 5, Radius = Fin 1\<rparr>, ObjColor = mkColor 1 0 0\<rparr>"

definition blueTwin :: SceneSphere where
  "blueTwin = \<lparr>ObjSphere = \<lparr>Center = mkPoint 0 0 5, Radius = Fin 1\<rparr>, ObjColor = mkColor 0 0 1\<rparr>"

definition greenSphere :: SceneSphere where
  "greenSphere = \<lparr>ObjSphere = \<lparr>Center = mkPoint 0 5 4, Radius = Fin 1\<rparr>, ObjColor = mkColor 0 1 0\<rparr>"

definition boxFrustum :: Frustum where
  "boxFrustum = \<lparr>Near = mkPlane (- 4) 4 4 (- 4) 0, Far = mkPlane (- 4) 4 4 (- 4) 10\<rparr>"

definition litScene :: Scene where
  "litScene = \<lparr>ViewFrustum = boxFrustum, Light = mkPoint 0 0 (- 5), Objects = [redSphere],
                Bg = mkColor 1 1 1, Kd = Fin (1 / 2)\<rparr>"

definition shadowScene :: Scene where
  "shadowScene = \<lparr>ViewFrustum = boxFrustum, Light = mkPoint 0 10 4,
                   Objects = [redSphere, greenSphere], Bg = mkColor 1 1 1, Kd = Fin (1 / 2)\<rparr>"

definition twinScene :: Scene where
  "twinScene = \<lparr>ViewFrustum = boxFrustum, Light = mkPoint 0 0 (- 5),
                 Objects = [redSphere, blueTwin], Bg = mkColor 1 1 1, Kd = Fin (1 / 2)\<rparr>"

definition axisRay :: Line where
  "axisRay = (mkPoint 0 0 0, mkPoint 0 0 10)"

text \<open>A ray whose two points are the same point.\<close>

definition pointRay :: Line where
  "pointRay = (mkPoint 0 0 0, mkPoint 0 0 0)"

text \<open>
  A scene whose near plane is 4 wide and 2 high and whose far plane is 8 wide and 4 high,
  with no object.
\<close>

definition wideScene :: Scene where
  "wideScene = \<lparr>ViewFrustum = \<lparr>Near = mkPlane 0 2 4 0 0, Far = mkPlane 0 4 8 0 10\<rparr>,
                 Light = mkPoint 0 0 (- 5), Objects = [], Bg = mkColor 0 0 0, Kd = Fin (1 / 2)\<rparr>"




section \<open>Verification\<close>

subsection \<open>Colours as bytes\<close>





subsection \<open>The nearest hit\<close>

lemma float64_less_irrefl: "\<not> (a::float64) < a"
  by (cases a) simp_all

lemma float64_less_trans: "(a::float64) < b \<Longrightarrow> b < c \<Longrightarrow> a < c"
  by (cases a; cases b; cases c) simp_all

lemma float64_le_less_trans: "(a::float64) \<le> b \<Longrightarrow> b < c \<Longrightarrow> a < c"
  by (cases a; cases b; cases c) simp_all

lemma castRayStep_hit:
  "castRayStep s ray i (pmin, tmin, imin) =
     (if hitOk s ray i \<and> hitT s ray i < tmin then (hitP s ray i, hitT s ray i, int i)
      else (pmin, tmin, imin))"
  by (simp add: castRayStep_def hitOk_def hitT_def hitP_def split: prod.splits)

lemma new_minimum:
  assumes old: "\<forall>j<k. hitOk s ray j \<longrightarrow> \<not> hitT s ray j < m"
    and new: "hitT s ray k < m"
  shows "\<forall>j<Suc k. hitOk s ray j \<longrightarrow> \<not> hitT s ray j < hitT s ray k"
    and "\<forall>j<k. hitOk s ray j \<longrightarrow> \<not> hitT s ray j \<le> hitT s ray k"
proof -
  show "\<forall>j<Suc k. hitOk s ray j \<longrightarrow> \<not> hitT s ray j < hitT s ray k"
  proof (intro allI impI)
    fix j assume j: "j < Suc k" and ok: "hitOk s ray j"
    show "\<not> hitT s ray j < hitT s ray k"
    proof (cases "j = k")
      case True
      then show ?thesis by (simp add: float64_less_irrefl)
    next
      case False
      with j have "j < k" by simp
      with old ok have "\<not> hitT s ray j < m" by simp
      then show ?thesis using new float64_less_trans by blast
    qed
  qed
  show "\<forall>j<k. hitOk s ray j \<longrightarrow> \<not> hitT s ray j \<le> hitT s ray k"
  proof (intro allI impI)
    fix j assume "j < k" and "hitOk s ray j"
    with old have "\<not> hitT s ray j < m" by simp
    then show "\<not> hitT s ray j \<le> hitT s ray k"
      using new float64_le_less_trans by blast
  qed
qed


lemma castRayInv_step:
  assumes "castRayInv s ray k st"
  shows "castRayInv s ray (Suc k) (castRayStep s ray k st)"
proof -
  obtain pmin tmin imin where st: "st = (pmin, tmin, imin)"
    by (cases st) auto
  let ?new = "hitOk s ray k \<and> hitT s ray k < tmin"
  from assms st consider
    (none) "imin = - 1" "tmin = MaxFloat64"
      "\<forall>j<k. hitOk s ray j \<longrightarrow> \<not> hitT s ray j < MaxFloat64"
  | (some) i where "i < k" "imin = int i" "pmin = hitP s ray i" "tmin = hitT s ray i"
      "hitOk s ray i" "hitT s ray i < MaxFloat64"
      "\<forall>j<k. hitOk s ray j \<longrightarrow> \<not> hitT s ray j < hitT s ray i"
      "\<forall>j<i. hitOk s ray j \<longrightarrow> \<not> hitT s ray j \<le> hitT s ray i"
    unfolding castRayInv_def by auto
  then show ?thesis
  proof cases
    case none
    show ?thesis
    proof (cases ?new)
      case True
      then have lt: "hitT s ray k < MaxFloat64" and ok: "hitOk s ray k"
        using none(2) by simp_all
      have step: "castRayStep s ray k (pmin, tmin, imin) = (hitP s ray k, hitT s ray k, int k)"
        using True by (simp add: castRayStep_hit)
      show ?thesis
        unfolding st step castRayInv_def
        using new_minimum [OF none(3) lt] ok lt by auto
    next
      case False
      then have step: "castRayStep s ray k (pmin, tmin, imin) = (pmin, tmin, imin)"
        by (auto simp: castRayStep_hit)
      have "\<forall>j<Suc k. hitOk s ray j \<longrightarrow> \<not> hitT s ray j < MaxFloat64"
        using none(2,3) False by (auto simp: less_Suc_eq)
      then show ?thesis
        unfolding st step castRayInv_def using none(1,2) by simp
    qed
  next
    case (some i)
    show ?thesis
    proof (cases ?new)
      case True
      then have lti: "hitT s ray k < hitT s ray i" and ok: "hitOk s ray k"
        using some(4) by simp_all
      have lt: "hitT s ray k < MaxFloat64"
        using lti some(6) by (rule float64_less_trans)
      have step: "castRayStep s ray k (pmin, tmin, imin) = (hitP s ray k, hitT s ray k, int k)"
        using True by (simp add: castRayStep_hit)
      show ?thesis
        unfolding st step castRayInv_def
        using new_minimum [OF some(7) lti] ok lt by auto
    next
      case False
      then have step: "castRayStep s ray k (pmin, tmin, imin) = (pmin, tmin, imin)"
        by (auto simp: castRayStep_hit)
      have all: "\<forall>j<Suc k. hitOk s ray j \<longrightarrow> \<not> hitT s ray j < hitT s ray i"
        using some(4,7) False by (auto simp: less_Suc_eq)
      have "i < Suc k"
        using some(1) by simp
      then show ?thesis
        unfolding st step castRayInv_def using some(2-6,8) all by auto
    qed
  qed
qed

lemma castRayInv_fold:
  "castRayInv s ray k (fold (castRayStep s ray) [0..<k] (p0, MaxFloat64, - 1))"
proof (induction k)
  case 0
  show ?case by (simp add: castRayInv_def)
next
  case (Suc k)
  then show ?case by (simp add: castRayInv_step)
qed


lemma castRay_scan:
  "(castRay s ray = (None, Origin) \<and>
      (\<forall>j<length (Objects s). hitOk s ray j \<longrightarrow> \<not> hitT s ray j < MaxFloat64)) \<or>
   (\<exists>i<length (Objects s). castRay s ray = (Some i, hitP s ray i) \<and>
      hitOk s ray i \<and> hitT s ray i < MaxFloat64 \<and>
      (\<forall>j<length (Objects s). hitOk s ray j \<longrightarrow> \<not> hitT s ray j < hitT s ray i) \<and>
      (\<forall>j<i. hitOk s ray j \<longrightarrow> \<not> hitT s ray j \<le> hitT s ray i))"
proof -
  let ?st = "fold (castRayStep s ray) [0..<length (Objects s)]
               (\<lparr>PX = Fin 0, PY = Fin 0, PZ = Fin 0\<rparr>, MaxFloat64, - 1)"
  obtain pmin tmin imin where st: "?st = (pmin, tmin, imin)"
    by (cases ?st) auto
  have "castRayInv s ray (length (Objects s)) (pmin, tmin, imin)"
    unfolding st [symmetric] by (rule castRayInv_fold)
  then consider
    (none) "imin = - 1"
      "\<forall>j<length (Objects s). hitOk s ray j \<longrightarrow> \<not> hitT s ray j < MaxFloat64"
  | (some) i where "i < length (Objects s)" "imin = int i" "pmin = hitP s ray i"
      "hitOk s ray i" "hitT s ray i < MaxFloat64"
      "\<forall>j<length (Objects s). hitOk s ray j \<longrightarrow> \<not> hitT s ray j < hitT s ray i"
      "\<forall>j<i. hitOk s ray j \<longrightarrow> \<not> hitT s ray j \<le> hitT s ray i"
    unfolding castRayInv_def by auto
  then show ?thesis
  proof cases
    case none
    then have "castRay s ray = (None, Origin)"
      using st by (simp add: castRay_def)
    with none(2) show ?thesis by simp
  next
    case (some i)
    then have "castRay s ray = (Some i, hitP s ray i)"
      using st by (simp add: castRay_def)
    with some show ?thesis by blast
  qed
qed

lemma rayHitsLoop_iff:
  "rayHitsLoop objs ray = (\<exists>obj \<in> set objs. snd (snd (SphereLineIntersection (ObjSphere obj) ray)))"
  by (induction objs) (auto split: prod.splits)

lemma rayHitsObject_iff:
  "rayHitsObject s ray = (\<exists>j<length (Objects s). hitOk s ray j)"
  unfolding rayHitsObject_def rayHitsLoop_iff hitOk_def
  by (metis in_set_conv_nth)

lemma float64_not_less: "(a::float64) < m \<Longrightarrow> b < m \<Longrightarrow> (\<not> a < b) = (b \<le> a)"
  by (cases a; cases b; cases m) auto

lemma float64_not_le: "(a::float64) < m \<Longrightarrow> b < m \<Longrightarrow> (\<not> a \<le> b) = (b < a)"
  by (cases a; cases b; cases m) auto

text \<open>
  C2, amended: for every scene and every ray such that each object that the ray intersects
  has its parameter \<open>t\<close> below \<open>MaxFloat64\<close>, \<open>castRay\<close> returns none when no object
  intersects, and otherwise the object of least \<open>t\<close> with its hit point; among objects of
  the same least \<open>t\<close> it returns the first in the order of the scene.
\<close>

theorem castRay_nearest:
  assumes below: "\<forall>j<length (Objects s). hitOk s ray j \<longrightarrow> hitT s ray j < MaxFloat64"
  shows "if \<forall>j<length (Objects s). \<not> hitOk s ray j then castRay s ray = (None, Origin)
         else \<exists>i<length (Objects s). castRay s ray = (Some i, hitP s ray i) \<and> hitOk s ray i \<and>
                (\<forall>j<length (Objects s). hitOk s ray j \<longrightarrow> hitT s ray i \<le> hitT s ray j) \<and>
                (\<forall>j<i. hitOk s ray j \<longrightarrow> hitT s ray i < hitT s ray j)"
proof -
  from castRay_scan [of s ray] show ?thesis
  proof (elim disjE conjE exE)
    assume none: "castRay s ray = (None, Origin)"
      and "\<forall>j<length (Objects s). hitOk s ray j \<longrightarrow> \<not> hitT s ray j < MaxFloat64"
    with below have "\<forall>j<length (Objects s). \<not> hitOk s ray j"
      by blast
    with none show ?thesis by simp
  next
    fix i
    assume i: "i < length (Objects s)" and res: "castRay s ray = (Some i, hitP s ray i)"
      and ok: "hitOk s ray i" and lt: "hitT s ray i < MaxFloat64"
      and least: "\<forall>j<length (Objects s). hitOk s ray j \<longrightarrow> \<not> hitT s ray j < hitT s ray i"
      and first: "\<forall>j<i. hitOk s ray j \<longrightarrow> \<not> hitT s ray j \<le> hitT s ray i"
    have "\<forall>j<length (Objects s). hitOk s ray j \<longrightarrow> hitT s ray i \<le> hitT s ray j"
      using least below lt float64_not_less by blast
    moreover have "\<forall>j<i. hitOk s ray j \<longrightarrow> hitT s ray i < hitT s ray j"
    proof (intro allI impI)
      fix j assume j: "j < i" and okj: "hitOk s ray j"
      then have "hitT s ray j < MaxFloat64"
        using below i by simp
      moreover have "\<not> hitT s ray j \<le> hitT s ray i"
        using first j okj by simp
      ultimately show "hitT s ray i < hitT s ray j"
        using lt float64_not_le by blast
    qed
    ultimately show ?thesis
      using i res ok by auto
  qed
qed

text \<open>
  C10, amended: when \<open>castRay\<close> returns an object, \<open>rayHitsObject\<close> is true; and when
  \<open>rayHitsObject\<close> is true and each object that the ray intersects has its parameter
  \<open>t\<close> below \<open>MaxFloat64\<close>, \<open>castRay\<close> returns an object.
\<close>

theorem rayHitsObject_castRay:
  "(fst (castRay s ray) \<noteq> None \<longrightarrow> rayHitsObject s ray) \<and>
   (rayHitsObject s ray \<and>
    (\<forall>j<length (Objects s). hitOk s ray j \<longrightarrow> hitT s ray j < MaxFloat64) \<longrightarrow>
    fst (castRay s ray) \<noteq> None)"
  using castRay_scan [of s ray] by (auto simp: rayHitsObject_iff)


lemma sqrt_400: "sqrt 400 = 20"
  by (rule real_sqrt_unique) simp_all

lemma MaxFloat64_above: "x \<le> 1 \<Longrightarrow> Fin x < MaxFloat64"
proof -
  assume "x \<le> 1"
  moreover have "(1::real) < (2 ^ 53 - 1) * 2 ^ 971"
    by simp
  ultimately show ?thesis
    by (simp add: MaxFloat64_def)
qed

lemma hit_redSphere_axisRay:
  "SphereLineIntersection \<lparr>Center = mkPoint 0 0 5, Radius = Fin 1\<rparr> axisRay =
     (mkPoint 0 0 4, Fin (2 / 5), True)"
  by (simp add: SphereLineIntersection_def axisRay_def mkPoint_def Let_def minus_float64_def sqrt_400)

lemma hit_redSphere_pointRay:
  "SphereLineIntersection \<lparr>Center = mkPoint 0 0 5, Radius = Fin 1\<rparr> pointRay =
     (\<lparr>PX = NaN, PY = NaN, PZ = NaN\<rparr>, NaN, True)"
  by (simp add: SphereLineIntersection_def pointRay_def mkPoint_def Let_def minus_float64_def)

text \<open>
  C2 as stated fails for a ray whose two points coincide: every coefficient of the
  quadratic is zero, the object counts as intersected with \<open>t = 0/0 = NaN\<close>, the
  comparison \<open>t < tmin\<close> is false and \<open>castRay\<close> returns none.
\<close>

theorem castRay_nearest_counterexample:
  "hitOk litScene pointRay 0 \<and> castRay litScene pointRay = (None, Origin)"
  by (simp add: hitOk_def castRay_def castRayStep_def litScene_def redSphere_def
      hit_redSphere_pointRay)

text \<open>
  C10 as stated fails on the same ray: \<open>rayHitsObject\<close> is true and \<open>castRay\<close>
  returns none.
\<close>

theorem rayHitsObject_castRay_counterexample:
  "rayHitsObject litScene pointRay \<and> fst (castRay litScene pointRay) = None"
  by (simp add: rayHitsObject_def castRay_def castRayStep_def litScene_def redSphere_def
      hit_redSphere_pointRay)

lemma twinScene_hits:
  "length (Objects twinScene) = 2"
  "hitOk twinScene axisRay 0" "hitOk twinScene axisRay (Suc 0)"
  "hitT twinScene axisRay 0 = Fin (2 / 5)" "hitT twinScene axisRay (Suc 0) = Fin (2 / 5)"
  "hitP twinScene axisRay 0 = mkPoint 0 0 4"
  by (simp_all add: hitOk_def hitT_def hitP_def twinScene_def redSphere_def blueTwin_def
      hit_redSphere_axisRay)

text \<open>
  Two spheres at the same place are hit at the same \<open>t = 2/5\<close>: the theorem gives the
  first of them.
\<close>

theorem castRay_nearest_witness:
  "castRay twinScene axisRay = (Some 0, mkPoint 0 0 4)"
proof -
  have below: "\<forall>j<length (Objects twinScene).
      hitOk twinScene axisRay j \<longrightarrow> hitT twinScene axisRay j < MaxFloat64"
    by (simp add: twinScene_hits less_Suc_eq numeral_2_eq_2 MaxFloat64_above)
  have some: "\<not> (\<forall>j<length (Objects twinScene). \<not> hitOk twinScene axisRay j)"
    using twinScene_hits(1,2) by (auto intro: exI [of _ 0])
  have "\<exists>i<length (Objects twinScene).
          castRay twinScene axisRay = (Some i, hitP twinScene axisRay i) \<and>
          hitOk twinScene axisRay i \<and>
          (\<forall>j<length (Objects twinScene). hitOk twinScene axisRay j \<longrightarrow>
             hitT twinScene axisRay i \<le> hitT twinScene axisRay j) \<and>
          (\<forall>j<i. hitOk twinScene axisRay j \<longrightarrow>
             hitT twinScene axisRay i < hitT twinScene axisRay j)"
    using castRay_nearest [OF below] some by (simp only: if_False)
  then obtain i where i: "i < length (Objects twinScene)"
    and res: "castRay twinScene axisRay = (Some i, hitP twinScene axisRay i)"
    and first: "\<forall>j<i. hitOk twinScene axisRay j \<longrightarrow>
                  hitT twinScene axisRay i < hitT twinScene axisRay j"
    by (elim exE conjE)
  have "i = 0"
  proof (rule ccontr)
    assume "i \<noteq> 0"
    with i have "i = Suc 0" by (simp add: twinScene_hits(1))
    with first twinScene_hits(2)
    have "hitT twinScene axisRay (Suc 0) < hitT twinScene axisRay 0" by simp
    then show False by (simp add: twinScene_hits)
  qed
  with res show ?thesis
    by (simp add: twinScene_hits)
qed

theorem rayHitsObject_castRay_witness:
  "rayHitsObject twinScene axisRay \<and> fst (castRay twinScene axisRay) \<noteq> None"
proof -
  have below: "\<forall>j<length (Objects twinScene).
      hitOk twinScene axisRay j \<longrightarrow> hitT twinScene axisRay j < MaxFloat64"
    by (simp add: twinScene_hits less_Suc_eq numeral_2_eq_2 MaxFloat64_above)
  have hits: "rayHitsObject twinScene axisRay"
    by (simp add: rayHitsObject_def twinScene_def redSphere_def hit_redSphere_axisRay)
  have "fst (castRay twinScene axisRay) \<noteq> None"
    by (rule mp [OF conjunct2 [OF rayHitsObject_castRay [of twinScene axisRay]]
          conjI [OF hits below]])
  with hits show ?thesis ..
qed

subsection \<open>The primary ray\<close>

lemma primaryRay_code:
  "primaryRay s x y =
     (\<lparr>PX = x, PY = y, PZ = PlaneZ (Near (ViewFrustum s))\<rparr>,
      \<lparr>PX = x * Dx (Far (ViewFrustum s)) / Dx (Near (ViewFrustum s)),
       PY = y * Dy (Far (ViewFrustum s)) / Dx (Near (ViewFrustum s)),
       PZ = PlaneZ (Far (ViewFrustum s))\<rparr>)"
  by (simp add: primaryRay_def farPoint_def Let_def)

text \<open>
  C8: the primary ray of \<open>renderPixel\<close> starts at \<open>(x, y, Near.Z)\<close>, and the claim
  scales \<open>y\<close> by the ratio of the heights of the two planes. The function divides by the
  width \<open>Near.Dx()\<close> in both coordinates. On a near plane 4 wide and 2 high and a far
  plane 8 wide and 4 high, at \<open>(x, y) = (1, 1)\<close>, the ray ends at \<open>(2, 1, 10)\<close>, where
  the claim has \<open>(2, 2, 10)\<close>.
\<close>

theorem primaryRay_far_point_divergence:
  "primaryRay wideScene (Fin 1) (Fin 1) = (mkPoint 1 1 0, mkPoint 2 1 10) \<and>
   \<lparr>PX = Fin 1 * Dx (Far (ViewFrustum wideScene)) / Dx (Near (ViewFrustum wideScene)),
    PY = Fin 1 * Dy (Far (ViewFrustum wideScene)) / Dy (Near (ViewFrustum wideScene)),
    PZ = PlaneZ (Far (ViewFrustum wideScene))\<rparr> = mkPoint 2 2 10"
  by (simp add: primaryRay_code wideScene_def mkPlane_def mkPoint_def Dx_def Dy_def
      minus_float64_def)

subsection \<open>The normal of a sphere\<close>









subsection \<open>The intersection of a sphere and a line\<close>











end
